theory Spec2Isabelle
  imports Main
begin

section \<open>BuildRecipePage: the data model\<close>

text \<open>
  A shallow embedding of \<^verbatim>\<open>app/src/pages/BuildRecipePage.js\<close>. The page is a class with five
  observable fields; its operations mutate them and talk to three collaborators: the
  thumbnail endpoint, the metadata endpoint and the crafty contract handle. Mutation is
  explicit state passing, the collaborators are functions of an environment record, thrown
  errors and rejected promises are \<open>Inl\<close> values, and every run returns the list of
  the effects it performed, in order.
\<close>

text \<open>One ingredient row of the form: the object \<^verbatim>\<open>{id, address, amount}\<close>.\<close>

record IngredientRow =
  row_id :: string
  address :: string
  amount :: string

text \<open>What \<^verbatim>\<open>this.form.values()\<close> reads: the four scalar fields and the ordered rows.\<close>

record FormSchema =
  image_value :: string
  name_value :: string
  symbol_value :: string
  description_value :: string
  inputs :: "IngredientRow list"

text \<open>
  The observable fields (lines 26-30). \<^verbatim>\<open>tokenAddress\<close> has no initialiser, so it starts
  \<^verbatim>\<open>undefined\<close>: \<open>None\<close>. \<^verbatim>\<open>form\<close> starts \<^verbatim>\<open>null\<close>: \<open>None\<close>.
\<close>

record page =
  deploying :: bool
  playing :: bool
  totallyDone :: bool
  tokenAddress :: "string option"
  form :: "FormSchema option"

definition init_page :: page where
  "init_page = \<lparr>deploying = False, playing = False, totallyDone = False,
                 tokenAddress = None, form = None\<rparr>"

text \<open>
  Errors: a \<^verbatim>\<open>TypeError\<close> of the runtime (a property read on \<^verbatim>\<open>null\<close> or
  \<^verbatim>\<open>undefined\<close>), the error of lines 113 and 125 with the status it carries, and a rejection
  that comes from a collaborator (the HTTP client or the contract call).
\<close>

datatype error =
  TypeError
| UnexpectedAPIResponse int
| Rejected string

text \<open>A resolved HTTP response: \<^verbatim>\<open>response.status\<close> and \<^verbatim>\<open>response.data\<close>.\<close>

record response =
  status :: int
  data :: string

text \<open>
  The collaborators. \<open>crafty\<close> is \<^verbatim>\<open>this.props.store.domain.crafty\<close>: absent, or a handle
  whose \<^verbatim>\<open>addCraftable(name, symbol, uri, ingredients, amounts)\<close> resolves to a token
  address or rejects. \<open>post_thumbnail\<close> is \<^verbatim>\<open>axios.post(API/thumbnail, {'image-base64': x})\<close>,
  where \<open>x = None\<close> is \<^verbatim>\<open>undefined\<close>; \<open>post_metadata\<close> is
  \<^verbatim>\<open>axios.post(API/metadata, {name, description, image, author})\<close>. Each may reject
  (\<open>Inl\<close>) or resolve with a response (\<open>Inr\<close>).
\<close>

record env =
  crafty :: "(string \<Rightarrow> string \<Rightarrow> string \<Rightarrow> string list \<Rightarrow> string list \<Rightarrow> error + string) option"
  post_thumbnail :: "string option \<Rightarrow> error + response"
  post_metadata :: "string \<Rightarrow> string \<Rightarrow> string \<Rightarrow> string \<Rightarrow> error + response"
  currentAddress :: string

text \<open>The effects a run performs, with their arguments.\<close>

datatype event =
  is_PostThumbnail: PostThumbnail "string option"
| is_PostMetadata: PostMetadata string string string string
| is_AddCraftable: AddCraftable string string string "string list" "string list"
| is_ConsoleError: ConsoleError error

text \<open>An endpoint answered 200: the promise resolved and \<^verbatim>\<open>status === 200\<close>.\<close>

definition resolved_200 :: "error + response \<Rightarrow> bool" where
  "resolved_200 r = (case r of Inl err \<Rightarrow> False | Inr resp \<Rightarrow> status resp = 200)"

section \<open>Form initialisation\<close>

text \<open>
  Lines 39-47: \<open>start\<close> and \<open>finished\<close> are the two readings of \<^verbatim>\<open>Date.now()\<close>, in
  milliseconds.
\<close>

definition restDelay :: "int \<Rightarrow> int \<Rightarrow> int" where
  "restDelay start finished =
     (let diff = finished - start;
          minimumDelay = 800;
          timeLeft = minimumDelay - diff
      in max 0 timeLeft)"

text \<open>
  Line 49-54: \<^verbatim>\<open>setTimeout(callback, restDelay)\<close> is called at \<open>finished\<close>, so the callback
  is due at \<open>finished + restDelay\<close>; the timer runs it then or later.
\<close>

definition callback_due :: "int \<Rightarrow> int \<Rightarrow> int" where
  "callback_due start finished = finished + restDelay start finished"

text \<open>
  Modelled from the spec: \<^verbatim>\<open>buildRecipeForm\<close> (\<^verbatim>\<open>forms/BuildRecipe.js\<close>) is not among the
  sources. The spec's form initialiser "constructs a validated form schema and seeds it
  with one empty ingredient row": the schema it constructs from the canonical token list
  has the four scalar fields empty and no ingredient row yet.
\<close>

definition buildRecipeForm :: "string list \<Rightarrow> FormSchema" where
  "buildRecipeForm canonicalTokensInfo =
     \<lparr>image_value = [], name_value = [], symbol_value = [], description_value = [],
      inputs = []\<rparr>"

text \<open>
  Line 64-66: \<^verbatim>\<open>this.form.$('inputs').add({ id: uid() })\<close> appends a row that carries the
  fresh id; \<open>uid\<close> is the value \<^verbatim>\<open>uid()\<close> returned. With \<^verbatim>\<open>this.form\<close> still
  \<^verbatim>\<open>null\<close> the call throws.
\<close>

definition addInput :: "string \<Rightarrow> page \<Rightarrow> error + page" where
  "addInput uid s =
     (case form s of
        None \<Rightarrow> Inl TypeError
      | Some f \<Rightarrow>
          Inr (s\<lparr>form := Some (f\<lparr>inputs := inputs f @ [\<lparr>row_id = uid, address = [], amount = []\<rparr>]\<rparr>)\<rparr>))"

text \<open>Lines 49-54: the timer's callback, given the form \<^verbatim>\<open>buildRecipeForm\<close> returned.\<close>

definition lazyInitForm_callback :: "FormSchema \<Rightarrow> string \<Rightarrow> page \<Rightarrow> error + page" where
  "lazyInitForm_callback built uid s = addInput uid (s\<lparr>form := Some built\<rparr>)"

section \<open>The loader and the deployment\<close>

text \<open>Lines 57-62.\<close>

definition canDeploy :: "env \<Rightarrow> bool" where
  "canDeploy e = (case crafty e of None \<Rightarrow> False | Some c \<Rightarrow> True)"

text \<open>Lines 68-72.\<close>

definition closeLoader :: "page \<Rightarrow> page" where
  "closeLoader s = s\<lparr>playing := False, totallyDone := True\<rparr>"

text \<open>Line 140: the overlay is open exactly while \<^verbatim>\<open>playing\<close> is true.\<close>

definition loader_open :: "page \<Rightarrow> bool" where
  "loader_open s = playing s"

text \<open>
  \<^verbatim>\<open>String.prototype.split\<close> with a separator that matches one character: the pieces
  between the separators, in order; the empty string gives one empty piece.
\<close>

fun js_split :: "char \<Rightarrow> string \<Rightarrow> string list" where
  "js_split c [] = [[]]"
| "js_split c (x # xs) =
     (if x = c then [] # js_split c xs
      else (case js_split c xs of
              [] \<Rightarrow> [[x]]
            | p # ps \<Rightarrow> (x # p) # ps))"

text \<open>An array read \<^verbatim>\<open>xs[i]\<close>: \<^verbatim>\<open>undefined\<close> past the end.\<close>

definition js_index :: "'a list \<Rightarrow> nat \<Rightarrow> 'a option" where
  "js_index xs i = (if i < length xs then Some (xs ! i) else None)"

text \<open>Line 111: \<^verbatim>\<open>image.split(/,/)[1]\<close>.\<close>

definition image_base64 :: "string \<Rightarrow> string option" where
  "image_base64 img = js_index (js_split CHR '','' img) 1"

text \<open>
  Lines 107-129. The result is the metadata URI or the error thrown, with the requests
  that were sent.
\<close>

definition uploadMetadata ::
  "env \<Rightarrow> string \<Rightarrow> string \<Rightarrow> string \<Rightarrow> string \<Rightarrow> (error + string) \<times> event list" where
  "uploadMetadata e nm description img author =
     (let payload = image_base64 img in
      case post_thumbnail e payload of
        Inl err \<Rightarrow> (Inl err, [PostThumbnail payload])
      | Inr imageResponse \<Rightarrow>
          if status imageResponse \<noteq> 200
          then (Inl (UnexpectedAPIResponse (status imageResponse)), [PostThumbnail payload])
          else
            (case post_metadata e nm description (data imageResponse) author of
               Inl err \<Rightarrow>
                 (Inl err,
                  [PostThumbnail payload, PostMetadata nm description (data imageResponse) author])
             | Inr metadataResponse \<Rightarrow>
                 if status metadataResponse \<noteq> 200
                 then (Inl (UnexpectedAPIResponse (status metadataResponse)),
                       [PostThumbnail payload,
                        PostMetadata nm description (data imageResponse) author])
                 else (Inr (data metadataResponse),
                       [PostThumbnail payload,
                        PostMetadata nm description (data imageResponse) author])))"

text \<open>
  Lines 80-93, the body of the \<^verbatim>\<open>try\<close> up to the contract call: the token address
  \<^verbatim>\<open>addCraftable\<close> resolved to, or the first error thrown.
\<close>

definition deploy_try :: "env \<Rightarrow> page \<Rightarrow> (error + string) \<times> event list" where
  "deploy_try e s =
     (case form s of
        None \<Rightarrow> (Inl TypeError, [])
      | Some values \<Rightarrow>
          (let ingredients = map address (inputs values);
               amounts = map amount (inputs values)
           in case uploadMetadata e (name_value values) (description_value values)
                     (image_value values) (currentAddress e) of
                (Inl err, tr) \<Rightarrow> (Inl err, tr)
              | (Inr tokenMetadataURI, tr) \<Rightarrow>
                  (case crafty e of
                     None \<Rightarrow> (Inl TypeError, tr)
                   | Some addCraftable \<Rightarrow>
                       (addCraftable (name_value values) (symbol_value values) tokenMetadataURI
                          ingredients amounts,
                        tr @ [AddCraftable (name_value values) (symbol_value values)
                                tokenMetadataURI ingredients amounts]))))"

text \<open>Line 77, lines 94-97 and lines 101-103: the three writes of \<^verbatim>\<open>deploy\<close>.\<close>

definition deploy_begin :: "page \<Rightarrow> page" where
  "deploy_begin s = s\<lparr>deploying := True\<rparr>"

definition deploy_success :: "string \<Rightarrow> page \<Rightarrow> page" where
  "deploy_success addr s = s\<lparr>tokenAddress := Some addr, totallyDone := True\<rparr>"

definition deploy_finally :: "page \<Rightarrow> page" where
  "deploy_finally s = s\<lparr>deploying := False\<rparr>"

text \<open>Lines 74-105: one run of \<^verbatim>\<open>deploy()\<close>, from the call to the end of \<^verbatim>\<open>finally\<close>.\<close>

definition deploy :: "env \<Rightarrow> page \<Rightarrow> page \<times> event list" where
  "deploy e s =
     (if \<not> canDeploy e then (s, [])
      else
        (let s1 = deploy_begin s in
         case deploy_try e s1 of
           (Inr addr, tr) \<Rightarrow> (deploy_finally (deploy_success addr s1), tr)
         | (Inl err, tr) \<Rightarrow> (deploy_finally s1, tr @ [ConsoleError err])))"

text \<open>
  The states the component passes through. A run of \<^verbatim>\<open>deploy\<close> is suspended at each
  \<^verbatim>\<open>await\<close>, where other operations may run, so its three writes are steps of their own;
  \<open>set_form\<close> stands for every write to the form (the timer's callback, an added row,
  the user's typing).
\<close>

inductive reachable :: "page \<Rightarrow> bool" where
  start: "reachable init_page"
| close: "reachable s \<Longrightarrow> reachable (closeLoader s)"
| begin_deploy: "reachable s \<Longrightarrow> reachable (deploy_begin s)"
| success: "reachable s \<Longrightarrow> reachable (deploy_success addr s)"
| finish: "reachable s \<Longrightarrow> reachable (deploy_finally s)"
| set_form: "reachable s \<Longrightarrow> reachable (s\<lparr>form := f\<rparr>)"

text \<open>The invariant of the data model: a completed page has its token address and is idle.\<close>

definition done_inv :: "page \<Rightarrow> bool" where
  "done_inv s = (if totallyDone s then tokenAddress s \<noteq> None \<and> \<not> deploying s else True)"

section \<open>Concrete runs\<close>

text \<open>
  A form with two ingredient rows and a picture read as a data URI, a page that holds it,
  and collaborators that answer with the given statuses.
\<close>

definition example_form :: FormSchema where
  "example_form =
     \<lparr>image_value = ''data:image/png;base64,iVBORw0KGgo='',
      name_value = ''Sword'', symbol_value = ''SWD'', description_value = ''A sharp one'',
      inputs = [\<lparr>row_id = ''r1'', address = ''0xA'', amount = ''1''\<rparr>,
                \<lparr>row_id = ''r2'', address = ''0xB'', amount = ''2''\<rparr>]\<rparr>"

definition example_page :: page where
  "example_page = init_page\<lparr>form := Some example_form\<rparr>"

definition example_mint ::
  "string \<Rightarrow> string \<Rightarrow> string \<Rightarrow> string list \<Rightarrow> string list \<Rightarrow> error + string" where
  "example_mint nm symb uri ingredients amounts = Inr ''0xC0FFEE''"

definition example_env :: "int \<Rightarrow> int \<Rightarrow> env" where
  "example_env st1 st2 =
     \<lparr>crafty = Some example_mint,
      post_thumbnail = (\<lambda>payload. Inr \<lparr>status = st1, data = ''thumb/1.png''\<rparr>),
      post_metadata = (\<lambda>nm description img author. Inr \<lparr>status = st2, data = ''meta/1.json''\<rparr>),
      currentAddress = ''0xF00''\<rparr>"

definition offline_env :: env where
  "offline_env = (example_env 200 200)\<lparr>crafty := None\<rparr>"

text \<open>
  Line 111 passes no \<^verbatim>\<open>validateStatus\<close>, so the HTTP client rejects a response whose status
  is outside 2xx: here the thumbnail endpoint answers 500 and the promise is rejected with
  the client's own error.
\<close>

definition rejecting_env :: env where
  "rejecting_env =
     (example_env 200 200)
       \<lparr>post_thumbnail := (\<lambda>payload. Inl (Rejected ''Request failed with status code 500''))\<rparr>"

section \<open>Splitting at the comma\<close>

lemma js_split_not_Nil: "js_split c xs \<noteq> []"
  by (induction xs) (auto split: list.splits)

lemma js_split_no_sep: "c \<notin> set xs \<Longrightarrow> js_split c xs = [xs]"
  by (induction xs) auto

lemma js_split_sep: "c \<notin> set pre \<Longrightarrow> js_split c (pre @ c # rest) = pre # js_split c rest"
  by (induction pre) auto

lemma image_base64_no_comma: "CHR '','' \<notin> set img \<Longrightarrow> image_base64 img = None"
  by (simp add: image_base64_def js_index_def js_split_no_sep)

lemma image_base64_data_uri:
  "CHR '','' \<notin> set pre \<Longrightarrow> CHR '','' \<notin> set b \<Longrightarrow> image_base64 (pre @ CHR '','' # b) = Some b"
  by (simp add: image_base64_def js_index_def js_split_no_sep js_split_sep)

section \<open>Runs of uploadMetadata\<close>

lemma uploadMetadata_first_request:
  "\<exists>rest. snd (uploadMetadata e nm d img a) = PostThumbnail (image_base64 img) # rest"
  by (simp add: uploadMetadata_def Let_def split: sum.splits)

lemma uploadMetadata_thumbnail_failed:
  assumes "\<not> resolved_200 (post_thumbnail e (image_base64 img))"
  shows "\<exists>err. uploadMetadata e nm d img a = (Inl err, [PostThumbnail (image_base64 img)])"
  using assms by (auto simp: uploadMetadata_def resolved_200_def Let_def split: sum.splits)

lemma uploadMetadata_metadata_failed:
  assumes "post_thumbnail e (image_base64 img) = Inr r1" and "status r1 = 200"
    and "\<not> resolved_200 (post_metadata e nm d (data r1) a)"
  shows "\<exists>err. uploadMetadata e nm d img a =
           (Inl err, [PostThumbnail (image_base64 img), PostMetadata nm d (data r1) a])"
  using assms by (auto simp: uploadMetadata_def resolved_200_def Let_def split: sum.splits)

lemma uploadMetadata_ok:
  assumes "post_thumbnail e (image_base64 img) = Inr r1" and "status r1 = 200"
    and "post_metadata e nm d (data r1) a = Inr r2" and "status r2 = 200"
  shows "uploadMetadata e nm d img a =
           (Inr (data r2), [PostThumbnail (image_base64 img), PostMetadata nm d (data r1) a])"
  using assms by (simp add: uploadMetadata_def Let_def)

section \<open>Runs of deploy\<close>

lemma deploy_try_begin: "deploy_try e (deploy_begin s) = deploy_try e s"
  by (simp add: deploy_try_def deploy_begin_def)

lemma deploy_cases:
  "deploy e s = (s, []) \<and> crafty e = None
   \<or> (\<exists>addr tr. deploy_try e s = (Inr addr, tr) \<and> crafty e \<noteq> None \<and>
         deploy e s = (deploy_finally (deploy_success addr (deploy_begin s)), tr))
   \<or> (\<exists>err tr. deploy_try e s = (Inl err, tr) \<and> crafty e \<noteq> None \<and>
         deploy e s = (deploy_finally (deploy_begin s), tr @ [ConsoleError err]))"
  by (auto simp: deploy_def canDeploy_def deploy_try_begin Let_def split: option.splits sum.splits prod.splits)

lemma uploadMetadata_no_mint_event:
  "AddCraftable nm sy uri ads ams \<notin> set (snd (uploadMetadata e n d i a))"
  by (simp add: uploadMetadata_def Let_def split: sum.splits)

lemma deploy_try_mint_arguments:
  assumes "form s = Some f" and "AddCraftable nm sy uri ads ams \<in> set (snd (deploy_try e s))"
  shows "ads = map address (inputs f) \<and> ams = map amount (inputs f)"
  using assms
    uploadMetadata_no_mint_event[of nm sy uri ads ams e "name_value f" "description_value f"
      "image_value f" "currentAddress e"]
  by (auto simp: deploy_try_def Let_def split: prod.splits sum.splits option.splits)

lemma deploy_invokes_mint:
  assumes "crafty e = Some mint" and "form s = Some f"
    and "post_thumbnail e (image_base64 (image_value f)) = Inr r1" and "status r1 = 200"
    and "post_metadata e (name_value f) (description_value f) (data r1) (currentAddress e) = Inr r2"
    and "status r2 = 200"
  shows "AddCraftable (name_value f) (symbol_value f) (data r2) (map address (inputs f))
           (map amount (inputs f)) \<in> set (snd (deploy e s))"
proof -
  have "uploadMetadata e (name_value f) (description_value f) (image_value f) (currentAddress e) =
        (Inr (data r2), [PostThumbnail (image_base64 (image_value f)),
           PostMetadata (name_value f) (description_value f) (data r1) (currentAddress e)])"
    using assms(3-6) by (rule uploadMetadata_ok)
  then have "AddCraftable (name_value f) (symbol_value f) (data r2) (map address (inputs f))
           (map amount (inputs f)) \<in> set (snd (deploy_try e s))"
    using assms(1,2) by (simp add: deploy_try_def Let_def)
  then show ?thesis
    using deploy_cases[of e s] assms(1) by auto
qed

lemma deploy_trace:
  "snd (deploy e s) = [] \<or> snd (deploy e s) = snd (deploy_try e s)
   \<or> (\<exists>err. snd (deploy e s) = snd (deploy_try e s) @ [ConsoleError err])"
  using deploy_cases[of e s] by auto

lemma deploy_playing: "playing (fst (deploy e s)) = playing s"
  using deploy_cases[of e s]
  by (auto simp: deploy_finally_def deploy_success_def deploy_begin_def)

lemma reachable_deploy: "reachable s \<Longrightarrow> reachable (fst (deploy e s))"
  using deploy_cases[of e s]
  by (auto intro!: reachable.finish reachable.success reachable.begin_deploy)

lemma reachable_addInput: "reachable s \<Longrightarrow> addInput u s = Inr s' \<Longrightarrow> reachable s'"
  by (auto simp: addInput_def split: option.splits intro: reachable.set_form)

lemma reachable_lazyInitForm_callback:
  "reachable s \<Longrightarrow> lazyInitForm_callback built u s = Inr s' \<Longrightarrow> reachable s'"
  unfolding lazyInitForm_callback_def
  by (erule reachable_addInput[OF reachable.set_form])

lemma done_inv_init: "done_inv init_page"
  by (simp add: done_inv_def init_page_def)

lemma deploy_preserves_done_inv: "done_inv s \<Longrightarrow> done_inv (fst (deploy e s))"
  using deploy_cases[of e s]
  by (auto simp: done_inv_def deploy_finally_def deploy_success_def deploy_begin_def split: if_splits)

lemma lazyInitForm_callback_rows:
  "\<exists>s' f. lazyInitForm_callback built u s = Inr s' \<and> form s' = Some f \<and>
     inputs f = inputs built @ [\<lparr>row_id = u, address = [], amount = []\<rparr>]"
  by (simp add: lazyInitForm_callback_def addInput_def)

lemma example_deploy_ok:
  "deploy (example_env 200 200) example_page =
     (example_page\<lparr>deploying := False, totallyDone := True, tokenAddress := Some ''0xC0FFEE''\<rparr>,
      [PostThumbnail (Some ''iVBORw0KGgo=''),
       PostMetadata ''Sword'' ''A sharp one'' ''thumb/1.png'' ''0xF00'',
       AddCraftable ''Sword'' ''SWD'' ''meta/1.json'' [''0xA'', ''0xB''] [''1'', ''2'']])"
  by (simp add: deploy_def canDeploy_def deploy_try_def uploadMetadata_def image_base64_def
      js_index_def deploy_begin_def deploy_success_def deploy_finally_def example_env_def
      example_page_def example_form_def example_mint_def init_page_def)

section \<open>The properties of the page\<close>

text \<open>
  C1. The data model's invariant is that \<^verbatim>\<open>totallyDone\<close> implies a token address and an idle
  page, in every reachable state. A whole run of \<^verbatim>\<open>deploy\<close> keeps it
  (\<open>deploy_preserves_done_inv\<close>), but \<^verbatim>\<open>closeLoader\<close> does not: called on the freshly
  constructed page it sets \<^verbatim>\<open>totallyDone\<close> while \<^verbatim>\<open>tokenAddress\<close> is still
  \<^verbatim>\<open>undefined\<close>, so line 136 would redirect to \<^verbatim>\<open>/craft/undefined\<close>.
\<close>

theorem closeLoader_breaks_done_inv:
  "reachable (closeLoader init_page) \<and> totallyDone (closeLoader init_page) \<and>
   tokenAddress (closeLoader init_page) = None \<and> \<not> done_inv (closeLoader init_page)"
proof -
  have "reachable (closeLoader init_page)"
    by (rule reachable.close[OF reachable.start])
  then show ?thesis
    by (simp add: closeLoader_def init_page_def done_inv_def)
qed

text \<open>
  C2. A run of \<^verbatim>\<open>deploy\<close> in which the thumbnail request and the metadata request resolve
  with status 200 and \<^verbatim>\<open>addCraftable\<close> resolves to \<open>addr\<close> ends with
  \<^verbatim>\<open>tokenAddress\<close> equal to \<open>addr\<close>, \<^verbatim>\<open>totallyDone\<close> true and \<^verbatim>\<open>deploying\<close> false.
\<close>

theorem deploy_all_succeed:
  assumes "form s = Some f" and "crafty e = Some mint"
    and "post_thumbnail e (image_base64 (image_value f)) = Inr r1" and "status r1 = 200"
    and "post_metadata e (name_value f) (description_value f) (data r1) (currentAddress e) = Inr r2"
    and "status r2 = 200"
    and "mint (name_value f) (symbol_value f) (data r2) (map address (inputs f))
           (map amount (inputs f)) = Inr addr"
  shows "tokenAddress (fst (deploy e s)) = Some addr \<and> totallyDone (fst (deploy e s)) \<and>
         \<not> deploying (fst (deploy e s))"
proof -
  have up: "uploadMetadata e (name_value f) (description_value f) (image_value f) (currentAddress e) =
        (Inr (data r2), [PostThumbnail (image_base64 (image_value f)),
           PostMetadata (name_value f) (description_value f) (data r1) (currentAddress e)])"
    using assms(3-6) by (rule uploadMetadata_ok)
  have "fst (deploy_try e s) = Inr addr"
    using assms(1,2,7) up by (simp add: deploy_try_def Let_def)
  then show ?thesis
    using deploy_cases[of e s] assms(2)
    by (auto simp: deploy_finally_def deploy_success_def deploy_begin_def)
qed

theorem deploy_all_succeed_witness:
  "form example_page = Some example_form \<and> crafty (example_env 200 200) = Some example_mint \<and>
   tokenAddress (fst (deploy (example_env 200 200) example_page)) = Some ''0xC0FFEE'' \<and>
   totallyDone (fst (deploy (example_env 200 200) example_page)) \<and>
   \<not> deploying (fst (deploy (example_env 200 200) example_page))"
  using deploy_all_succeed[of example_page example_form "example_env 200 200" example_mint
      "\<lparr>status = 200, data = ''thumb/1.png''\<rparr>" "\<lparr>status = 200, data = ''meta/1.json''\<rparr>" "''0xC0FFEE''"]
  by (simp add: example_page_def example_env_def example_mint_def)

text \<open>
  C3. A run of \<^verbatim>\<open>deploy\<close> in which the thumbnail endpoint does not answer 200 (it resolves
  with another status, or the request is rejected) posts no metadata, never calls
  \<^verbatim>\<open>addCraftable\<close>, leaves \<^verbatim>\<open>totallyDone\<close> as it was (so false stays false) and ends
  with \<^verbatim>\<open>deploying\<close> false.
\<close>

theorem deploy_thumbnail_not_200:
  assumes "crafty e = Some mint" and "form s = Some f"
    and "\<not> resolved_200 (post_thumbnail e (image_base64 (image_value f)))"
  shows "\<not> list_ex is_PostMetadata (snd (deploy e s)) \<and>
         \<not> list_ex is_AddCraftable (snd (deploy e s)) \<and>
         totallyDone (fst (deploy e s)) = totallyDone s \<and>
         \<not> deploying (fst (deploy e s))"
proof -
  obtain err where
    "uploadMetadata e (name_value f) (description_value f) (image_value f) (currentAddress e) =
       (Inl err, [PostThumbnail (image_base64 (image_value f))])"
    using uploadMetadata_thumbnail_failed[OF assms(3)] by blast
  then have "deploy_try e s = (Inl err, [PostThumbnail (image_base64 (image_value f))])"
    using assms(2) by (simp add: deploy_try_def Let_def)
  then have "deploy e s =
      (deploy_finally (deploy_begin s), [PostThumbnail (image_base64 (image_value f)), ConsoleError err])"
    using deploy_cases[of e s] assms(1) by auto
  then show ?thesis
    by (simp add: deploy_finally_def deploy_begin_def)
qed

theorem deploy_thumbnail_not_200_witness:
  "crafty (example_env 500 200) = Some example_mint \<and> form example_page = Some example_form \<and>
   \<not> resolved_200 (post_thumbnail (example_env 500 200) (image_base64 (image_value example_form))) \<and>
   \<not> list_ex is_PostMetadata (snd (deploy (example_env 500 200) example_page)) \<and>
   \<not> list_ex is_AddCraftable (snd (deploy (example_env 500 200) example_page)) \<and>
   \<not> totallyDone (fst (deploy (example_env 500 200) example_page)) \<and>
   \<not> deploying (fst (deploy (example_env 500 200) example_page))"
  using deploy_thumbnail_not_200[of "example_env 500 200" example_mint example_page example_form]
  by (simp add: example_page_def example_env_def resolved_200_def init_page_def)

text \<open>
  C4. A run of \<^verbatim>\<open>deploy\<close> in which the thumbnail endpoint answers 200 and the metadata
  endpoint does not never calls \<^verbatim>\<open>addCraftable\<close>, leaves \<^verbatim>\<open>totallyDone\<close> as it was
  and ends with \<^verbatim>\<open>deploying\<close> false.
\<close>

theorem deploy_metadata_not_200:
  assumes "crafty e = Some mint" and "form s = Some f"
    and "post_thumbnail e (image_base64 (image_value f)) = Inr r1" and "status r1 = 200"
    and "\<not> resolved_200
           (post_metadata e (name_value f) (description_value f) (data r1) (currentAddress e))"
  shows "\<not> list_ex is_AddCraftable (snd (deploy e s)) \<and>
         totallyDone (fst (deploy e s)) = totallyDone s \<and>
         \<not> deploying (fst (deploy e s))"
proof -
  obtain err where
    "uploadMetadata e (name_value f) (description_value f) (image_value f) (currentAddress e) =
       (Inl err, [PostThumbnail (image_base64 (image_value f)),
          PostMetadata (name_value f) (description_value f) (data r1) (currentAddress e)])"
    using uploadMetadata_metadata_failed[OF assms(3-5)] by blast
  then have "deploy_try e s = (Inl err, [PostThumbnail (image_base64 (image_value f)),
          PostMetadata (name_value f) (description_value f) (data r1) (currentAddress e)])"
    using assms(2) by (simp add: deploy_try_def Let_def)
  then have "deploy e s =
      (deploy_finally (deploy_begin s), [PostThumbnail (image_base64 (image_value f)),
          PostMetadata (name_value f) (description_value f) (data r1) (currentAddress e),
          ConsoleError err])"
    using deploy_cases[of e s] assms(1) by auto
  then show ?thesis
    by (simp add: deploy_finally_def deploy_begin_def)
qed

theorem deploy_metadata_not_200_witness:
  "crafty (example_env 200 404) = Some example_mint \<and> form example_page = Some example_form \<and>
   \<not> resolved_200 (post_metadata (example_env 200 404) ''Sword'' ''A sharp one'' ''thumb/1.png'' ''0xF00'') \<and>
   \<not> list_ex is_AddCraftable (snd (deploy (example_env 200 404) example_page)) \<and>
   \<not> totallyDone (fst (deploy (example_env 200 404) example_page)) \<and>
   \<not> deploying (fst (deploy (example_env 200 404) example_page))"
  using deploy_metadata_not_200[of "example_env 200 404" example_mint example_page example_form
      "\<lparr>status = 200, data = ''thumb/1.png''\<rparr>"]
  by (simp add: example_page_def example_env_def example_form_def resolved_200_def init_page_def)

text \<open>
  C5. Without the crafty handle \<^verbatim>\<open>deploy\<close> does nothing: the page it returns is the page
  it was given, field for field, and no request is sent.
\<close>

theorem deploy_without_crafty:
  assumes "crafty e = None"
  shows "fst (deploy e s) = s \<and> snd (deploy e s) = []"
  using assms by (simp add: deploy_def canDeploy_def)

theorem deploy_without_crafty_witness:
  "crafty offline_env = None \<and> fst (deploy offline_env example_page) = example_page \<and>
   snd (deploy offline_env example_page) = []"
  using deploy_without_crafty[of offline_env example_page]
  by (simp add: offline_env_def)

text \<open>
  C6. Whenever a run of \<^verbatim>\<open>deploy\<close> calls \<^verbatim>\<open>addCraftable\<close>, the address list and the
  amount list it passes are the addresses and the amounts of the form's rows, in the rows'
  order: the i-th address and the i-th amount come from the i-th row. (When both uploads
  answer 200 the call is made: \<open>deploy_invokes_mint\<close>.)
\<close>

theorem deploy_mint_arguments:
  assumes "form s = Some f" and "AddCraftable nm sy uri ads ams \<in> set (snd (deploy e s))"
  shows "ads = map address (inputs f) \<and> ams = map amount (inputs f) \<and>
         length ads = length (inputs f) \<and> length ams = length (inputs f) \<and>
         (\<forall>i<length (inputs f). ads ! i = address (inputs f ! i) \<and> ams ! i = amount (inputs f ! i))"
proof -
  have "AddCraftable nm sy uri ads ams \<in> set (snd (deploy_try e s))"
    using deploy_trace[of e s] assms(2) by auto
  then have "ads = map address (inputs f) \<and> ams = map amount (inputs f)"
    using assms(1) by (rule deploy_try_mint_arguments[rotated])
  then show ?thesis by simp
qed

theorem deploy_mint_arguments_witness:
  "form example_page = Some example_form \<and>
   AddCraftable ''Sword'' ''SWD'' ''meta/1.json'' [''0xA'', ''0xB''] [''1'', ''2'']
     \<in> set (snd (deploy (example_env 200 200) example_page)) \<and>
   [''0xA'', ''0xB''] = map address (inputs example_form) \<and>
   [''1'', ''2''] = map amount (inputs example_form)"
  using deploy_mint_arguments[of example_page example_form "''Sword''" "''SWD''" "''meta/1.json''"
      "[''0xA'', ''0xB'']" "[''1'', ''2'']" "example_env 200 200"]
  by (simp add: example_deploy_ok) (simp add: example_page_def example_form_def)


text \<open>
  C7. Once the timer's callback has run on the form that \<^verbatim>\<open>buildRecipeForm\<close> returned,
  the page has a form and its ingredient list holds exactly one row, the one that carries
  the fresh id. (For any built form the callback appends exactly one row:
  \<open>lazyInitForm_callback_rows\<close>.)
\<close>

theorem lazyInitForm_callback_one_row:
  "\<exists>s' f. lazyInitForm_callback (buildRecipeForm canonicalTokensInfo) u s = Inr s' \<and>
     form s' = Some f \<and> length (inputs f) = 1 \<and>
     inputs f = [\<lparr>row_id = u, address = [], amount = []\<rparr>]"
  using lazyInitForm_callback_rows[of "buildRecipeForm canonicalTokensInfo" u s]
  by (auto simp: buildRecipeForm_def)

text \<open>
  C8. With \<open>elapsed = finished - start\<close>, the delay handed to the timer is
  \<open>max 0 (800 - elapsed)\<close>; the callback is therefore due \<open>max 800 elapsed\<close>
  milliseconds after construction, and whenever the timer runs it, \<open>slack\<close>
  milliseconds after it is due, that is no earlier than \<open>max 800 elapsed\<close> after
  construction and not before the readiness flag resolved.
\<close>

theorem lazyInitForm_minimum_delay:
  "restDelay start finished = max 0 (800 - (finished - start)) \<and>
   callback_due start finished - start = max 800 (finished - start) \<and>
   max 800 (finished - start) \<le> callback_due start finished + int slack - start \<and>
   finished \<le> callback_due start finished + int slack"
  by (simp add: restDelay_def callback_due_def Let_def max_def)

text \<open>
  C9, as stated, fails twice. For an image value without a data-URI prefix, a bare base64
  string, there is no comma, the split has a single piece, and the \<^verbatim>\<open>image-base64\<close>
  field of the request is \<^verbatim>\<open>undefined\<close>, not the base64 text. And when the thumbnail
  endpoint answers 500 the HTTP client rejects the promise, line 112 is never reached, and
  the error thrown is the client's, not "Unexpected API response".
\<close>

theorem thumbnail_payload_without_prefix:
  "image_base64 ''iVBORw0KGgo='' = None \<and>
   uploadMetadata (example_env 200 200) ''Sword'' ''A sharp one'' ''iVBORw0KGgo='' ''0xF00'' =
     (Inr ''meta/1.json'',
      [PostThumbnail None, PostMetadata ''Sword'' ''A sharp one'' ''thumb/1.png'' ''0xF00'']) \<and>
   uploadMetadata rejecting_env ''Sword'' ''A sharp one''
       ''data:image/png;base64,iVBORw0KGgo='' ''0xF00'' =
     (Inl (Rejected ''Request failed with status code 500''),
      [PostThumbnail (Some ''iVBORw0KGgo='')]) \<and>
   fst (uploadMetadata rejecting_env ''Sword'' ''A sharp one''
          ''data:image/png;base64,iVBORw0KGgo='' ''0xF00'') \<noteq> Inl (UnexpectedAPIResponse 500)"
  by (simp add: uploadMetadata_def example_env_def rejecting_env_def image_base64_def js_index_def)

text \<open>
  C9, amended. For an image value made of a prefix, a comma and a payload, neither of
  which holds a comma, the \<^verbatim>\<open>image-base64\<close> field of the thumbnail request is the payload
  alone. When the thumbnail request resolves with a status other than 200,
  \<^verbatim>\<open>uploadMetadata\<close> throws the "Unexpected API response" error that carries the status,
  after that one request; when the HTTP client rejects the request instead,
  \<^verbatim>\<open>uploadMetadata\<close> throws the client's error unchanged, after that one request.
\<close>

theorem thumbnail_payload_data_uri:
  "(CHR '','' \<notin> set pre \<and> CHR '','' \<notin> set b \<longrightarrow>
      image_base64 (pre @ CHR '','' # b) = Some b \<and>
      (\<exists>rest. snd (uploadMetadata e nm d (pre @ CHR '','' # b) a) = PostThumbnail (Some b) # rest)) \<and>
   (post_thumbnail e (image_base64 img) = Inr r \<and> status r \<noteq> 200 \<longrightarrow>
      uploadMetadata e nm d img a =
        (Inl (UnexpectedAPIResponse (status r)), [PostThumbnail (image_base64 img)])) \<and>
   (post_thumbnail e' (image_base64 img) = Inl err \<longrightarrow>
      uploadMetadata e' nm d img a = (Inl err, [PostThumbnail (image_base64 img)]))"
proof (intro conjI impI)
  assume "CHR '','' \<notin> set pre \<and> CHR '','' \<notin> set b"
  then show payload: "image_base64 (pre @ CHR '','' # b) = Some b"
    by (simp add: image_base64_data_uri)
  show "\<exists>rest. snd (uploadMetadata e nm d (pre @ CHR '','' # b) a) = PostThumbnail (Some b) # rest"
    using uploadMetadata_first_request[of e nm d "pre @ CHR '','' # b" a] payload by simp
next
  assume "post_thumbnail e (image_base64 img) = Inr r \<and> status r \<noteq> 200"
  then show "uploadMetadata e nm d img a =
        (Inl (UnexpectedAPIResponse (status r)), [PostThumbnail (image_base64 img)])"
    by (simp add: uploadMetadata_def Let_def)
next
  assume "post_thumbnail e' (image_base64 img) = Inl err"
  then show "uploadMetadata e' nm d img a = (Inl err, [PostThumbnail (image_base64 img)])"
    by (simp add: uploadMetadata_def Let_def)
qed

theorem thumbnail_payload_data_uri_witness:
  "CHR '','' \<notin> set ''data:image/png;base64'' \<and> CHR '','' \<notin> set ''iVBORw0KGgo='' \<and>
   image_base64 ''data:image/png;base64,iVBORw0KGgo='' = Some ''iVBORw0KGgo='' \<and>
   post_thumbnail (example_env 204 200) (image_base64 ''data:image/png;base64,iVBORw0KGgo='')
     = Inr \<lparr>status = 204, data = ''thumb/1.png''\<rparr> \<and>
   uploadMetadata (example_env 204 200) ''Sword'' ''A sharp one''
       ''data:image/png;base64,iVBORw0KGgo='' ''0xF00'' =
     (Inl (UnexpectedAPIResponse 204), [PostThumbnail (Some ''iVBORw0KGgo='')]) \<and>
   post_thumbnail rejecting_env (image_base64 ''data:image/png;base64,iVBORw0KGgo='')
     = Inl (Rejected ''Request failed with status code 500'') \<and>
   uploadMetadata rejecting_env ''Sword'' ''A sharp one''
       ''data:image/png;base64,iVBORw0KGgo='' ''0xF00'' =
     (Inl (Rejected ''Request failed with status code 500''),
      [PostThumbnail (Some ''iVBORw0KGgo='')])"
  using thumbnail_payload_data_uri[of "''data:image/png;base64''" "''iVBORw0KGgo=''"
      "example_env 204 200" "''Sword''" "''A sharp one''" "''0xF00''"
      "''data:image/png;base64,iVBORw0KGgo=''" "\<lparr>status = 204, data = ''thumb/1.png''\<rparr>"
      rejecting_env "Rejected ''Request failed with status code 500''"]
  by (simp add: example_env_def rejecting_env_def)

text \<open>
  C10. \<^verbatim>\<open>playing\<close> is false in every reachable state, so the blocking loader is never
  open: the page starts with it false, \<^verbatim>\<open>closeLoader\<close> writes false, and neither
  \<^verbatim>\<open>deploy\<close> nor any write to the form touches it.
\<close>

theorem playing_never_true:
  assumes "reachable s"
  shows "\<not> playing s \<and> \<not> loader_open s \<and> \<not> playing (closeLoader s) \<and>
         \<not> playing (fst (deploy e s)) \<and> \<not> loader_open (fst (deploy e s))"
proof -
  have "\<not> playing s"
    using assms
    by (induction rule: reachable.induct)
      (simp_all add: init_page_def closeLoader_def deploy_begin_def deploy_success_def
        deploy_finally_def)
  then show ?thesis
    by (simp add: loader_open_def closeLoader_def deploy_playing)
qed

theorem playing_never_true_witness:
  "reachable (fst (deploy (example_env 200 200) (closeLoader init_page))) \<and>
   \<not> playing (fst (deploy (example_env 200 200) (closeLoader init_page))) \<and>
   \<not> loader_open (fst (deploy (example_env 200 200) (closeLoader init_page)))"
proof -
  have r: "reachable (fst (deploy (example_env 200 200) (closeLoader init_page)))"
    by (rule reachable_deploy[OF reachable.close[OF reachable.start]])
  show ?thesis
    using r playing_never_true[OF r, of "example_env 200 200"] by simp
qed

end
